theory Spec2Isabelle
  imports Main
begin

section \<open>JavaScript primitives used by the application\<close>

text \<open>
  The React entry point \<^verbatim>\<open>App\<close> (assets/js/app.js) keeps its session token in
  \<^verbatim>\<open>localStorage\<close> and reads the expiry back with \<^verbatim>\<open>parseInt\<close>. The functions of
  this section embed the parts of the language the code relies on.

  A JavaScript number is modelled as \<open>NaN\<close> or a mathematical integer. Every number the
  application computes with is the result of \<^verbatim>\<open>parseInt\<close> or of
  \<^verbatim>\<open>Math.floor\<close>, so it is \<open>NaN\<close> or integral; the model is exact for integers of
  magnitude below \<open>2 ^ 53\<close>, which an IEEE double holds exactly and prints in plain
  decimal notation. Strings are lists of \<open>char\<close>, that is code units below 256.
\<close>

datatype jsnum = NaN | Num int

text \<open>\<^verbatim>\<open>StrWhiteSpaceChar\<close> restricted to code units below 256: TAB, LF, VT, FF, CR, SP, NBSP.\<close>

definition isWhiteSpace :: "char \<Rightarrow> bool" where
  "isWhiteSpace c = (of_char c \<in> {9, 10, 11, 12, 13, 32, 160 :: nat})"

text \<open>The value of a digit of \<^verbatim>\<open>parseInt\<close>: \<open>0-9\<close>, then \<open>a-z\<close> or \<open>A-Z\<close> for 10 to 35.\<close>

definition digitValue :: "char \<Rightarrow> nat option" where
  "digitValue c =
     (let n = (of_char c :: nat) in
      if 48 \<le> n \<and> n \<le> 57 then Some (n - 48)
      else if 97 \<le> n \<and> n \<le> 122 then Some (n - 87)
      else if 65 \<le> n \<and> n \<le> 90 then Some (n - 55)
      else None)"

definition isRadixDigit :: "nat \<Rightarrow> char \<Rightarrow> bool" where
  "isRadixDigit R c = (case digitValue c of None \<Rightarrow> False | Some v \<Rightarrow> v < R)"

definition mathInt :: "nat \<Rightarrow> string \<Rightarrow> nat" where
  "mathInt R Z = foldl (\<lambda>a c. a * R + (case digitValue c of None \<Rightarrow> 0 | Some v \<Rightarrow> v)) 0 Z"

text \<open>Steps 4 to 6 of \<^verbatim>\<open>parseInt\<close>: a leading \<open>-\<close> sets the sign, a leading sign is removed.\<close>

definition signOf :: "string \<Rightarrow> int \<times> string" where
  "signOf S =
     (case S of
        c # rest \<Rightarrow>
          if c = CHR ''-'' then (- 1, rest)
          else if c = CHR ''+'' then (1, rest)
          else (1, S)
      | [] \<Rightarrow> (1, S))"

text \<open>With no radix argument the radix is 10, or 16 after a prefix \<open>0x\<close> or \<open>0X\<close>.\<close>

definition radixOf :: "string \<Rightarrow> nat \<times> string" where
  "radixOf S =
     (if take 2 S = ''0x'' \<or> take 2 S = ''0X'' then (16, drop 2 S) else (10, S))"

text \<open>
  \<^verbatim>\<open>parseInt(string)\<close>: trim leading white space, read the sign and the radix, take the
  longest prefix of digits; no digit gives \<open>NaN\<close>.
\<close>

definition parseInt :: "string \<Rightarrow> jsnum" where
  "parseInt inputString =
     (case signOf (dropWhile isWhiteSpace inputString) of (sign, S) \<Rightarrow>
      case radixOf S of (R, S') \<Rightarrow>
        let Z = takeWhile (isRadixDigit R) S'
        in if Z = [] then NaN else Num (sign * int (mathInt R Z)))"

definition digitChar :: "nat \<Rightarrow> char" where
  "digitChar d = char_of (48 + d)"

fun decimalDigits :: "nat \<Rightarrow> string" where
  "decimalDigits n =
     (if n < 10 then [digitChar n] else decimalDigits (n div 10) @ [digitChar (n mod 10)])"

declare decimalDigits.simps [simp del]

text \<open>\<^verbatim>\<open>ToString\<close> of a number: \<open>NaN\<close> prints as "NaN", an integer in decimal.\<close>

fun NumberToString :: "jsnum \<Rightarrow> string" where
  "NumberToString NaN = ''NaN''"
| "NumberToString (Num n) =
     (if n < 0 then CHR ''-'' # decimalDigits (nat (- n)) else decimalDigits (nat n))"

declare NumberToString.simps [simp del]

text \<open>
  \<^verbatim>\<open>ToString\<close> of the result of \<^verbatim>\<open>localStorage.getItem\<close>, a string or \<^verbatim>\<open>null\<close>
  (\<open>None\<close>), as \<^verbatim>\<open>parseInt\<close> applies it to its argument.
\<close>

fun ItemToString :: "string option \<Rightarrow> string" where
  "ItemToString None = ''null''"
| "ItemToString (Some v) = v"

text \<open>\<^verbatim>\<open>x === null\<close> for a number \<open>x\<close>: a number is never strictly equal to \<^verbatim>\<open>null\<close>.\<close>

fun strictEqualsNull :: "jsnum \<Rightarrow> bool" where
  "strictEqualsNull NaN = False"
| "strictEqualsNull (Num n) = False"

text \<open>\<^verbatim>\<open>x <= now\<close> for numbers: every comparison with \<open>NaN\<close> is false.\<close>

fun lessEq :: "jsnum \<Rightarrow> int \<Rightarrow> bool" where
  "lessEq NaN now = False"
| "lessEq (Num x) now = (x \<le> now)"

section \<open>The token store\<close>

text \<open>
  \<^verbatim>\<open>getToken\<close> of app.js. \<open>dateNow\<close> is \<^verbatim>\<open>Date.now()\<close>, in milliseconds; the result
  \<open>None\<close> is the JavaScript value \<^verbatim>\<open>false\<close>.
  \<^verbatim>\<open>
    const now = Math.floor(Date.now() / 1000);
    const expire = parseInt(localStorage.getItem('expire'));
    if (expire === null || parseInt(expire) <= now) { return false; }
    const token = localStorage.getItem('token');
    return token !== null ? token : false;
  \<close>
\<close>

definition getToken :: "int \<Rightarrow> (string \<rightharpoonup> string) \<Rightarrow> string option" where
  "getToken dateNow storage =
     (let now = dateNow div 1000;
          expire = parseInt (ItemToString (storage ''expire''))
      in if strictEqualsNull expire \<or> lessEq (parseInt (NumberToString expire)) now then None
         else (case storage ''token'' of Some token \<Rightarrow> Some token | None \<Rightarrow> None))"

section \<open>Application state and effects\<close>

record machine_state =
  step :: string

record box_config =
  defaultLanguageCode :: string
  inactivityTimeOut :: int

text \<open>The module object a dynamic \<^verbatim>\<open>import()\<close> resolves to, named by its specifier.\<close>

datatype lang_module = Module string

text \<open>
  The messages the client emits on the socket: \<^verbatim>\<open>GetToken {uniqueId}\<close>,
  \<^verbatim>\<open>ClientReady {token}\<close>, and \<^verbatim>\<open>ClientEvent\<close> with \<^verbatim>\<open>{name: 'Reset', token}\<close> or
  \<^verbatim>\<open>{name: 'Action', action, token, data}\<close>.
\<close>

datatype client_event = Reset string | Action string string "string option"

datatype socket_message = GetToken string | ClientReady string | ClientEvent client_event

text \<open>Everything a handler does to the outside, in the order the code does it.\<close>

datatype effect =
    Emit socket_message
  | Alert string
  | IdleTimerReset
  | RemoveItem string
  | SetItem string string
  | Import string

text \<open>
  The state of \<^verbatim>\<open>App\<close>: the browser's \<^verbatim>\<open>localStorage\<close>, the four \<^verbatim>\<open>useState\<close> cells
  (\<open>None\<close> is \<^verbatim>\<open>undefined\<close>), and the effects performed so far.
\<close>

record app_state =
  localStorage :: "string \<rightharpoonup> string"
  machineState :: "machine_state option"
  boxConfig :: "box_config option"
  messages :: "lang_module option"
  language :: string
  effects :: "effect list"

definition emit :: "socket_message \<Rightarrow> app_state \<Rightarrow> app_state" where
  "emit m s = s\<lparr>effects := effects s @ [Emit m]\<rparr>"

definition alert :: "string \<Rightarrow> app_state \<Rightarrow> app_state" where
  "alert msg s = s\<lparr>effects := effects s @ [Alert msg]\<rparr>"

definition setItem :: "string \<Rightarrow> string \<Rightarrow> app_state \<Rightarrow> app_state" where
  "setItem k v s = s\<lparr>localStorage := (localStorage s)(k \<mapsto> v), effects := effects s @ [SetItem k v]\<rparr>"

definition removeItem :: "string \<Rightarrow> app_state \<Rightarrow> app_state" where
  "removeItem k s = s\<lparr>localStorage := (localStorage s)(k := None), effects := effects s @ [RemoveItem k]\<rparr>"

text \<open>The socket messages among a list of effects.\<close>

fun emitted :: "effect list \<Rightarrow> socket_message list" where
  "emitted [] = []"
| "emitted (Emit m # es) = m # emitted es"
| "emitted (e # es) = emitted es"

text \<open>
  \<^verbatim>\<open>storeToken(token, expire)\<close>. The expiry issued by the server is a timestamp in whole
  seconds; \<^verbatim>\<open>setItem\<close> stores it as its \<^verbatim>\<open>ToString\<close>.
\<close>

definition storeToken :: "string \<Rightarrow> string \<Rightarrow> int \<Rightarrow> app_state \<Rightarrow> app_state" where
  "storeToken uniqueId token expire s =
     setItem ''uniqueId'' uniqueId
       (setItem ''expire'' (NumberToString (Num expire))
         (setItem ''token'' token s))"

definition removeToken :: "app_state \<Rightarrow> app_state" where
  "removeToken s = removeItem ''uniqueId'' (removeItem ''expire'' (removeItem ''token'' s))"

section \<open>The handlers of App\<close>

text \<open>
  The render function mounts \<^verbatim>\<open>IdleTimer\<close> (with \<^verbatim>\<open>ref={idleTimerRef}\<close>) and
  \<^verbatim>\<open>Bibbox\<close> (with \<^verbatim>\<open>actionHandler={handleAction}\<close>) together, under
  \<^verbatim>\<open>machineState && boxConfig\<close>. So \<^verbatim>\<open>idleTimerRef.current !== null\<close> holds exactly
  when both cells are set, which is also when \<^verbatim>\<open>handleAction\<close> and \<^verbatim>\<open>handleIdle\<close>
  can be called at all.
\<close>

definition rendered :: "app_state \<Rightarrow> bool" where
  "rendered s = (machineState s \<noteq> None \<and> boxConfig s \<noteq> None)"

text \<open>\<^verbatim>\<open>if (idleTimerRef.current !== null) { idleTimerRef.current.reset(); }\<close>\<close>

definition resetIdleTimer :: "app_state \<Rightarrow> app_state" where
  "resetIdleTimer s = (if rendered s then s\<lparr>effects := effects s @ [IdleTimerReset]\<rparr> else s)"

definition accessDenied :: string where
  "accessDenied = ''Token not valid. Access denied''"

text \<open>
  The first statement of the mount effect (\<^verbatim>\<open>useEffect(..., [])\<close>):
  \<^verbatim>\<open>if (localStorage.getItem('uniqueId') !== uniqueId) { removeToken(); }\<close>
\<close>

definition checkUniqueId :: "string \<Rightarrow> app_state \<Rightarrow> app_state" where
  "checkUniqueId uniqueId s =
     (if localStorage s ''uniqueId'' \<noteq> Some uniqueId then removeToken s else s)"

text \<open>
  The mount effect up to the registration of the socket handlers: the check above, then
  \<^verbatim>\<open>GetToken\<close> when \<^verbatim>\<open>getToken()\<close> is \<^verbatim>\<open>false\<close> and \<^verbatim>\<open>ClientReady\<close> otherwise.
\<close>

definition useEffect :: "string \<Rightarrow> int \<Rightarrow> app_state \<Rightarrow> app_state" where
  "useEffect uniqueId dateNow s =
     (let s1 = checkUniqueId uniqueId s in
      case getToken dateNow (localStorage s1) of
        None \<Rightarrow> emit (GetToken uniqueId) s1
      | Some token \<Rightarrow> emit (ClientReady token) s1)"

text \<open>\<^verbatim>\<open>socket.on('Token', ...)\<close>: store the issued token, then signal readiness with it.\<close>

definition on_Token :: "string \<Rightarrow> string \<Rightarrow> int \<Rightarrow> app_state \<Rightarrow> app_state" where
  "on_Token uniqueId token expire s = emit (ClientReady token) (storeToken uniqueId token expire s)"

text \<open>\<^verbatim>\<open>socket.on('reconnect', ...)\<close>\<close>

definition on_reconnect :: "int \<Rightarrow> app_state \<Rightarrow> app_state" where
  "on_reconnect dateNow s =
     (case getToken dateNow (localStorage s) of
        None \<Rightarrow> alert accessDenied s
      | Some token \<Rightarrow> emit (ClientReady token) s)"

text \<open>\<^verbatim>\<open>socket.on('UpdateState', ...)\<close>: reset the idle timer, then replace the state.\<close>

definition on_UpdateState :: "machine_state \<Rightarrow> app_state \<Rightarrow> app_state" where
  "on_UpdateState data s = (resetIdleTimer s)\<lparr>machineState := Some data\<rparr>"

text \<open>\<^verbatim>\<open>handleAction(action, data)\<close>\<close>

definition handleAction :: "string \<Rightarrow> string option \<Rightarrow> int \<Rightarrow> app_state \<Rightarrow> app_state" where
  "handleAction action data dateNow s =
     (case getToken dateNow (localStorage s) of
        None \<Rightarrow> alert accessDenied s
      | Some token \<Rightarrow>
          let s1 = resetIdleTimer s in
          if action = ''reset'' then emit (ClientEvent (Reset token)) s1
          else emit (ClientEvent (Action action token data)) s1)"

text \<open>
  \<^verbatim>\<open>handleIdle()\<close>. Reading \<^verbatim>\<open>machineState.step\<close> while \<^verbatim>\<open>machineState\<close> is
  \<^verbatim>\<open>undefined\<close> throws a \<^verbatim>\<open>TypeError\<close>.
\<close>

datatype js_error = TypeError

definition handleIdle :: "int \<Rightarrow> app_state \<Rightarrow> js_error + app_state" where
  "handleIdle dateNow s =
     (case getToken dateNow (localStorage s) of
        None \<Rightarrow> Inr (alert accessDenied s)
      | Some token \<Rightarrow>
          (case machineState s of
             None \<Rightarrow> Inl TypeError
           | Some ms \<Rightarrow>
               if step ms \<noteq> ''initial'' then Inr (emit (ClientEvent (Reset token)) s)
               else Inr (resetIdleTimer s)))"

subsection \<open>Translations\<close>

definition supportedLanguageCodes :: "string list" where
  "supportedLanguageCodes = [''da'', ''en'']"

text \<open>\<^verbatim>\<open>activateTranslations(data, languageCode)\<close>\<close>

definition activateTranslations :: "lang_module \<Rightarrow> string \<Rightarrow> app_state \<Rightarrow> app_state" where
  "activateTranslations data languageCode s = s\<lparr>messages := Some data, language := languageCode\<rparr>"

text \<open>
  \<^verbatim>\<open>loadTranslations(languageCode)\<close> starts a dynamic import and returns; the callback
  given to \<^verbatim>\<open>then\<close> runs later, when the import has resolved. The started import is
  returned as a value: the specifier, and the language code its callback will pass on.
\<close>

record pending_import =
  specifier :: string
  callbackLanguageCode :: string

definition loadTranslations :: "string \<Rightarrow> app_state \<Rightarrow> app_state \<times> pending_import" where
  "loadTranslations languageCode s =
     (let selectedLanguageCode =
            (if languageCode \<in> set supportedLanguageCodes then languageCode else ''en'');
          path = ''../../public/lang/'' @ selectedLanguageCode @ ''-comp.json''
      in (s\<lparr>effects := effects s @ [Import path]\<rparr>,
          \<lparr>specifier = path, callbackLanguageCode = languageCode\<rparr>))"

text \<open>The callback of the import: \<^verbatim>\<open>(data) => { activateTranslations(data, languageCode); }\<close>\<close>

definition importResolved :: "pending_import \<Rightarrow> app_state \<Rightarrow> app_state" where
  "importResolved p s = activateTranslations (Module (specifier p)) (callbackLanguageCode p) s"

text \<open>\<^verbatim>\<open>socket.on('Configuration', ...)\<close>\<close>

definition on_Configuration :: "box_config \<Rightarrow> app_state \<Rightarrow> app_state \<times> pending_import" where
  "on_Configuration data s =
     (case loadTranslations (defaultLanguageCode data) s of
        (s1, p) \<Rightarrow> (s1\<lparr>boxConfig := Some data\<rparr>, p))"

text \<open>The state of \<^verbatim>\<open>App\<close> at its first render, over a given \<^verbatim>\<open>localStorage\<close>.\<close>

definition initialState :: "(string \<rightharpoonup> string) \<Rightarrow> app_state" where
  "initialState storage =
     \<lparr>localStorage = storage, machineState = None, boxConfig = None, messages = None,
      language = ''en'', effects = []\<rparr>"

text \<open>
  The state once a \<^verbatim>\<open>Configuration\<close> message has been handled and the import it started
  has resolved.
\<close>

definition configured :: "box_config \<Rightarrow> app_state \<Rightarrow> app_state" where
  "configured data s = (case on_Configuration data s of (s1, p) \<Rightarrow> importResolved p s1)"

section \<open>The idle monitor\<close>

text \<open>
  Modelled from the spec: the \<^verbatim>\<open>IdleTimer\<close> component that \<^verbatim>\<open>App\<close> renders with
  \<^verbatim>\<open>onIdle={handleIdle}\<close> comes from the package react-idle-timer, whose code is not
  among the sources. The specification describes it as a machine with two states, Active
  and Idle-triggered: the countdown runs in Active; when it reaches the deadline the
  monitor becomes Idle-triggered and calls \<^verbatim>\<open>handleIdle\<close>; a restart of the countdown
  (\<^verbatim>\<open>reset()\<close>) makes it Active again. No deadline is pending in Idle-triggered.
\<close>

datatype idle_phase = Active | IdleTriggered

record idle_monitor =
  phase :: idle_phase
  app :: app_state

text \<open>The effects performed between a state and a later one.\<close>

definition performed :: "app_state \<Rightarrow> app_state \<Rightarrow> effect list" where
  "performed s s' = drop (length (effects s)) (effects s')"

text \<open>
  Modelled from the spec: the transition at the idle deadline. Only an Active monitor has a
  deadline; reaching it calls \<open>handleIdle\<close> (from the source) and leaves the monitor
  Idle-triggered, unless \<open>handleIdle\<close> restarted the countdown. A \<^verbatim>\<open>TypeError\<close> thrown by
  the callback leaves the application state as it was.
\<close>

definition deadlineReached :: "int \<Rightarrow> idle_monitor \<Rightarrow> idle_monitor" where
  "deadlineReached dateNow m =
     (case phase m of
        IdleTriggered \<Rightarrow> m
      | Active \<Rightarrow>
          (case handleIdle dateNow (app m) of
             Inl e \<Rightarrow> m\<lparr>phase := IdleTriggered\<rparr>
           | Inr s' \<Rightarrow>
               \<lparr>phase = (if IdleTimerReset \<in> set (performed (app m) s') then Active
                          else IdleTriggered),
                app = s'\<rparr>))"

text \<open>
  Modelled from the spec: an activity pulse before the deadline cancels the pending deadline
  and restarts the countdown; it does not touch the application.
\<close>

definition activityPulse :: "idle_monitor \<Rightarrow> idle_monitor" where
  "activityPulse m = m\<lparr>phase := Active\<rparr>"

text \<open>
  An idle period: the deadlines that come up, at the given clock readings, while no state
  update arrives and no action is sent.
\<close>

fun idlePeriod :: "int list \<Rightarrow> idle_monitor \<Rightarrow> idle_monitor" where
  "idlePeriod [] m = m"
| "idlePeriod (dateNow # later) m = idlePeriod later (deadlineReached dateNow m)"

fun isResetEvent :: "socket_message \<Rightarrow> bool" where
  "isResetEvent (ClientEvent (Reset token)) = True"
| "isResetEvent m = False"

definition resetsEmitted :: "idle_monitor \<Rightarrow> nat" where
  "resetsEmitted m = length (filter isResetEvent (emitted (effects (app m))))"

section \<open>A session\<close>

text \<open>
  A kiosk that loaded configuration "A" with an empty store, was issued token "T1" expiring
  at second 1600000100, received its configuration and a machine state, and now shows the
  step \<open>checkOutItems\<close>; and the same kiosk back on the initial step.
\<close>

definition exampleConfig :: box_config where
  "exampleConfig = \<lparr>defaultLanguageCode = ''da'', inactivityTimeOut = 3000\<rparr>"

definition exampleSession :: app_state where
  "exampleSession =
     on_UpdateState \<lparr>step = ''checkOutItems''\<rparr>
       (configured exampleConfig
         (on_Token ''A'' ''T1'' 1600000100
           (useEffect ''A'' 1600000000000 (initialState Map.empty))))"

definition exampleHome :: app_state where
  "exampleHome = on_UpdateState \<lparr>step = ''initial''\<rparr> exampleSession"

section \<open>Reading a printed number back\<close>

lemma digitValue_digitChar: "d < 10 \<Longrightarrow> digitValue (digitChar d) = Some d"
  by (simp add: digitValue_def digitChar_def)

lemma isRadixDigit_digitChar: "d < 10 \<Longrightarrow> isRadixDigit 10 (digitChar d)"
  by (simp add: isRadixDigit_def digitValue_digitChar)

lemma not_ws_digitChar: "d < 10 \<Longrightarrow> \<not> isWhiteSpace (digitChar d)"
  by (simp add: isWhiteSpace_def digitChar_def)

lemma digitChar_sign: "d < 10 \<Longrightarrow> digitChar d \<noteq> CHR ''-'' \<and> digitChar d \<noteq> CHR ''+''"
  by (auto simp: digitChar_def dest: arg_cong[where f = "of_char :: char \<Rightarrow> nat"])

lemma digitChar_zero: "d < 10 \<Longrightarrow> digitChar d = CHR ''0'' \<Longrightarrow> d = 0"
  using digitValue_digitChar[of d] by (simp add: digitValue_def)

lemma decimalDigits_all: "\<forall>c \<in> set (decimalDigits n). isRadixDigit 10 c"
  by (induction n rule: decimalDigits.induct)
     (subst decimalDigits.simps, auto simp: isRadixDigit_digitChar)

lemma decimalDigits_ne: "decimalDigits n \<noteq> []"
  by (subst decimalDigits.simps) simp

lemma mathInt_snoc:
  "mathInt R (Z @ [c]) = mathInt R Z * R + (case digitValue c of None \<Rightarrow> 0 | Some v \<Rightarrow> v)"
  by (simp add: mathInt_def)

lemma mathInt_decimalDigits: "mathInt 10 (decimalDigits n) = n"
proof (induction n rule: decimalDigits.induct)
  case (1 n)
  show ?case
  proof (cases "n < 10")
    case True
    then show ?thesis
      by (subst decimalDigits.simps) (simp add: mathInt_def digitValue_digitChar)
  next
    case False
    then have "mathInt 10 (decimalDigits (n div 10)) = n div 10" using 1 by simp
    with False show ?thesis
      by (subst decimalDigits.simps) (simp add: mathInt_snoc digitValue_digitChar)
  qed
qed

text \<open>A printed number starts with a digit, and with \<open>0\<close> only when it is "0".\<close>

lemma decimalDigits_hd:
  "\<exists>d r. d < 10 \<and> decimalDigits n = digitChar d # r \<and> (d = 0 \<longrightarrow> r = [])"
proof (induction n rule: decimalDigits.induct)
  case (1 n)
  show ?case
  proof (cases "n < 10")
    case True
    then have "decimalDigits n = [digitChar n]" by (subst decimalDigits.simps) simp
    with True show ?thesis by blast
  next
    case False
    then obtain d r where dr: "d < 10" "decimalDigits (n div 10) = digitChar d # r"
        "d = 0 \<longrightarrow> r = []"
      using 1 by blast
    have "d \<noteq> 0"
    proof
      assume "d = 0"
      with dr have "decimalDigits (n div 10) = [digitChar 0]" by simp
      then have "mathInt 10 (decimalDigits (n div 10)) = 0"
        by (simp add: mathInt_def digitValue_digitChar)
      then have "n div 10 = 0" by (simp add: mathInt_decimalDigits)
      with False show False by simp
    qed
    moreover have "decimalDigits n = digitChar d # (r @ [digitChar (n mod 10)])"
      using False dr(2) by (subst decimalDigits.simps) simp
    ultimately show ?thesis using dr(1) by blast
  qed
qed

lemma decimalDigits_no_hex:
  "take 2 (decimalDigits n) \<noteq> ''0x'' \<and> take 2 (decimalDigits n) \<noteq> ''0X''"
proof -
  obtain d r where dr: "d < 10" "decimalDigits n = digitChar d # r" "d = 0 \<longrightarrow> r = []"
    using decimalDigits_hd by blast
  show ?thesis
  proof (cases "d = 0")
    case True
    with dr have "decimalDigits n = [digitChar 0]" by simp
    then show ?thesis by simp
  next
    case False
    with dr(1) have "digitChar d \<noteq> CHR ''0''" using digitChar_zero by blast
    then show ?thesis by (cases r) (simp_all add: dr(2))
  qed
qed

lemma radixOf_decimalDigits: "radixOf (decimalDigits n) = (10, decimalDigits n)"
  using decimalDigits_no_hex[of n] by (simp add: radixOf_def)

lemma signOf_decimalDigits: "signOf (decimalDigits n) = (1, decimalDigits n)"
proof -
  obtain d r where dr: "d < 10" "decimalDigits n = digitChar d # r"
    using decimalDigits_hd by blast
  then show ?thesis using digitChar_sign[of d] by (simp add: signOf_def)
qed

lemma dropWhile_decimalDigits: "dropWhile isWhiteSpace (decimalDigits n) = decimalDigits n"
proof -
  obtain d r where dr: "d < 10" "decimalDigits n = digitChar d # r"
    using decimalDigits_hd by blast
  then show ?thesis by (simp add: not_ws_digitChar)
qed

lemma takeWhile_decimalDigits:
  "takeWhile (isRadixDigit 10) (decimalDigits n) = decimalDigits n"
  by (simp add: takeWhile_eq_all_conv decimalDigits_all)

lemma parseInt_decimalDigits: "parseInt (decimalDigits n) = Num (int n)"
  by (simp add: parseInt_def dropWhile_decimalDigits signOf_decimalDigits radixOf_decimalDigits
      takeWhile_decimalDigits decimalDigits_ne mathInt_decimalDigits)

lemma parseInt_minus_decimalDigits: "parseInt (CHR ''-'' # decimalDigits n) = Num (- int n)"
  by (simp add: parseInt_def isWhiteSpace_def signOf_def radixOf_decimalDigits
      takeWhile_decimalDigits decimalDigits_ne mathInt_decimalDigits)

lemma parseInt_NumberToString: "parseInt (NumberToString (Num n)) = Num n"
  by (simp add: NumberToString.simps parseInt_decimalDigits parseInt_minus_decimalDigits)

lemma parseInt_null: "parseInt ''null'' = NaN"
  by (simp add: parseInt_def signOf_def radixOf_def isWhiteSpace_def isRadixDigit_def
      digitValue_def)

lemma parseInt_NaN: "parseInt (NumberToString NaN) = NaN"
  by (simp add: NumberToString.simps parseInt_def signOf_def radixOf_def isWhiteSpace_def isRadixDigit_def
      digitValue_def)

section \<open>Basic facts about the store and the handlers\<close>

lemma getToken_printed_expiry:
  "storage ''expire'' = Some (NumberToString (Num e)) \<Longrightarrow>
   getToken dateNow storage = (if dateNow div 1000 < e then storage ''token'' else None)"
  by (simp add: getToken_def Let_def parseInt_NumberToString split: option.split)

lemma getToken_no_expiry:
  "storage ''expire'' = None \<Longrightarrow> getToken dateNow storage = storage ''token''"
  by (simp add: getToken_def Let_def parseInt_null parseInt_NaN split: option.split)

lemma getToken_cleared:
  "storage ''expire'' = None \<Longrightarrow> storage ''token'' = None \<Longrightarrow> getToken dateNow storage = None"
  by (simp add: getToken_no_expiry)

lemma localStorage_removeToken:
  "localStorage (removeToken s) =
     (localStorage s)(''token'' := None, ''expire'' := None, ''uniqueId'' := None)"
  by (simp add: removeToken_def removeItem_def)

lemma effects_removeToken:
  "effects (removeToken s) =
     effects s @ [RemoveItem ''token'', RemoveItem ''expire'', RemoveItem ''uniqueId'']"
  by (simp add: removeToken_def removeItem_def)

lemma emitted_append: "emitted (xs @ ys) = emitted xs @ emitted ys"
  by (induction xs rule: emitted.induct) simp_all

lemma emitted_checkUniqueId:
  "emitted (effects (checkUniqueId uniqueId s)) = emitted (effects s)"
  by (simp add: checkUniqueId_def effects_removeToken emitted_append)

lemma loadTranslations_path:
  "loadTranslations languageCode s =
     (s\<lparr>effects := effects s @ [Import (''../../public/lang/'' @
          (if languageCode \<in> set supportedLanguageCodes then languageCode else ''en'')
          @ ''-comp.json'')]\<rparr>,
      \<lparr>specifier = ''../../public/lang/'' @
          (if languageCode \<in> set supportedLanguageCodes then languageCode else ''en'')
          @ ''-comp.json'',
       callbackLanguageCode = languageCode\<rparr>)"
  by (simp add: loadTranslations_def Let_def)

section \<open>The example session, evaluated\<close>

lemma NumberToString_1600000100: "NumberToString (Num 1600000100) = ''1600000100''"
  by (simp add: NumberToString.simps decimalDigits.simps [of "numeral k" for k]
      decimalDigits.simps [of "Suc 0"] digitChar_def char_of_eq_iff)

lemma exampleSession_record:
  "exampleSession =
     \<lparr>localStorage = [''token'' \<mapsto> ''T1'', ''expire'' \<mapsto> NumberToString (Num 1600000100),
                       ''uniqueId'' \<mapsto> ''A''],
      machineState = Some \<lparr>step = ''checkOutItems''\<rparr>,
      boxConfig = Some exampleConfig,
      messages = Some (Module ''../../public/lang/da-comp.json''),
      language = ''da'',
      effects = [RemoveItem ''token'', RemoveItem ''expire'', RemoveItem ''uniqueId'',
                 Emit (GetToken ''A''),
                 SetItem ''token'' ''T1'', SetItem ''expire'' (NumberToString (Num 1600000100)),
                 SetItem ''uniqueId'' ''A'', Emit (ClientReady ''T1''),
                 Import ''../../public/lang/da-comp.json'']\<rparr>"
  by (simp add: exampleSession_def on_UpdateState_def resetIdleTimer_def rendered_def
      configured_def on_Configuration_def loadTranslations_path importResolved_def
      activateTranslations_def exampleConfig_def supportedLanguageCodes_def
      on_Token_def storeToken_def setItem_def emit_def useEffect_def checkUniqueId_def
      removeToken_def removeItem_def initialState_def getToken_cleared)

lemma exampleHome_record:
  "exampleHome = exampleSession\<lparr>machineState := Some \<lparr>step = ''initial''\<rparr>,
     effects := effects exampleSession @ [IdleTimerReset]\<rparr>"
  by (simp add: exampleHome_def on_UpdateState_def resetIdleTimer_def rendered_def
      exampleSession_record)

lemma getToken_exampleSession:
  "getToken dateNow (localStorage exampleSession) =
     (if dateNow div 1000 < 1600000100 then Some ''T1'' else None)"
  by (simp add: exampleSession_record getToken_printed_expiry)

lemma getToken_exampleHome:
  "getToken dateNow (localStorage exampleHome) =
     (if dateNow div 1000 < 1600000100 then Some ''T1'' else None)"
  by (simp add: exampleHome_record exampleSession_record getToken_printed_expiry)

lemma handleIdle_exampleSession:
  "handleIdle 1600000050000 exampleSession = Inr (emit (ClientEvent (Reset ''T1'')) exampleSession)"
  by (simp add: handleIdle_def getToken_exampleSession) (simp add: exampleSession_record)

lemma resets_exampleSession: "filter isResetEvent (emitted (effects exampleSession)) = []"
  by (simp add: exampleSession_record)

section \<open>Properties of the token store\<close>

text \<open>
  C1. For a token stored with the expiry timestamp \<open>e\<close> (in seconds, within the range a
  JavaScript number holds exactly) and every clock reading, \<open>getToken\<close> returns the
  stored token value when \<open>now < e\<close>, where \<open>now\<close> is the clock in whole seconds, and
  returns the absent signal (\<^verbatim>\<open>false\<close>, here \<open>None\<close>) once \<open>now \<ge> e\<close>; at \<open>now = e\<close>
  the token counts as expired. The same holds of any store whose expiry entry is \<open>e\<close> as
  \<open>storeToken\<close> writes it: the token entry is returned when present and \<open>now < e\<close>.
\<close>

theorem getToken_expiry:
  assumes "\<bar>e\<bar> < 2 ^ 53"
  shows "getToken dateNow (localStorage (storeToken uniqueId token e s)) =
           (if dateNow div 1000 < e then Some token else None)
       \<and> (storage ''expire'' = Some (NumberToString (Num e)) \<longrightarrow>
            getToken dateNow storage =
              (if dateNow div 1000 < e then storage ''token'' else None))"
  by (simp add: getToken_printed_expiry storeToken_def setItem_def)

theorem getToken_expiry_witness:
  "\<bar>1600000100 :: int\<bar> < 2 ^ 53
   \<and> localStorage (storeToken ''A'' ''T1'' 1600000100 (initialState Map.empty)) =
        [''token'' \<mapsto> ''T1'', ''expire'' \<mapsto> ''1600000100'', ''uniqueId'' \<mapsto> ''A'']
   \<and> getToken 1600000000000
        (localStorage (storeToken ''A'' ''T1'' 1600000100 (initialState Map.empty))) = Some ''T1''
   \<and> getToken 1600000099999
        (localStorage (storeToken ''A'' ''T1'' 1600000100 (initialState Map.empty))) = Some ''T1''
   \<and> getToken 1600000100000
        (localStorage (storeToken ''A'' ''T1'' 1600000100 (initialState Map.empty))) = None
   \<and> getToken 1600000101000
        (localStorage (storeToken ''A'' ''T1'' 1600000100 (initialState Map.empty))) = None
   \<and> getToken 1600000099999 [''expire'' \<mapsto> ''1600000100''] = None"
proof -
  have h: "\<bar>1600000100 :: int\<bar> < 2 ^ 53"
    by simp
  have st: "localStorage (storeToken ''A'' ''T1'' 1600000100 (initialState Map.empty)) =
        [''token'' \<mapsto> ''T1'', ''expire'' \<mapsto> ''1600000100'', ''uniqueId'' \<mapsto> ''A'']"
    by (simp add: storeToken_def setItem_def initialState_def NumberToString_1600000100)
  have e: "[''expire'' \<mapsto> ''1600000100''] ''expire'' = Some (NumberToString (Num 1600000100))"
    by (simp add: NumberToString_1600000100)
  from h st
    getToken_expiry [OF h, of 1600000000000 "''A''" "''T1''" "initialState Map.empty",
      THEN conjunct1]
    getToken_expiry [OF h, of 1600000099999 "''A''" "''T1''" "initialState Map.empty",
      THEN conjunct1]
    getToken_expiry [OF h, of 1600000100000 "''A''" "''T1''" "initialState Map.empty",
      THEN conjunct1]
    getToken_expiry [OF h, of 1600000101000 "''A''" "''T1''" "initialState Map.empty",
      THEN conjunct1]
    getToken_expiry [OF h, of 1600000099999 "''A''" "''T1''" "initialState Map.empty"
      "[''expire'' \<mapsto> ''1600000100'']", THEN conjunct2, rule_format, OF e]
  show ?thesis by simp
qed

text \<open>
  C9. A store that holds a token entry but no expiry entry: \<^verbatim>\<open>parseInt(null)\<close> is \<open>NaN\<close>,
  which is neither \<^verbatim>\<open>null\<close> nor \<open>\<le> now\<close>, so \<open>getToken\<close> returns the token value at every
  clock reading; a token without a stored expiry is treated as valid.
\<close>

theorem getToken_missing_expiry:
  assumes "storage ''expire'' = None" and "storage ''token'' = Some token"
  shows "getToken dateNow storage = Some token"
  using assms by (simp add: getToken_no_expiry)

theorem getToken_missing_expiry_witness:
  "getToken 1600000100000 [''token'' \<mapsto> ''T1''] = Some ''T1''"
  using getToken_missing_expiry [of "[''token'' \<mapsto> ''T1'']" "''T1''" 1600000100000]
  by simp

section \<open>Session negotiation\<close>

text \<open>
  C4. At startup, when the configuration identifier stored with a previous token is not the
  identifier being loaded (or none is stored), the mount effect first removes the token,
  expiry and identifier entries, and only then negotiates: the one message it sends is
  \<^verbatim>\<open>GetToken\<close> with the identifier being loaded, so no token issued for another
  configuration is sent; the three entries are absent afterwards.
\<close>

theorem useEffect_clears_other_configuration:
  assumes "localStorage s ''uniqueId'' \<noteq> Some uniqueId"
  shows "localStorage (useEffect uniqueId dateNow s) ''token'' = None
       \<and> localStorage (useEffect uniqueId dateNow s) ''expire'' = None
       \<and> localStorage (useEffect uniqueId dateNow s) ''uniqueId'' = None
       \<and> effects (useEffect uniqueId dateNow s) =
           effects s @ [RemoveItem ''token'', RemoveItem ''expire'', RemoveItem ''uniqueId'',
                        Emit (GetToken uniqueId)]"
proof -
  have c: "checkUniqueId uniqueId s = removeToken s"
    using assms by (simp add: checkUniqueId_def)
  have g: "getToken dateNow (localStorage (removeToken s)) = None"
    by (rule getToken_cleared) (simp_all add: localStorage_removeToken)
  have u: "useEffect uniqueId dateNow s = emit (GetToken uniqueId) (removeToken s)"
    by (simp add: useEffect_def c g)
  show ?thesis
    by (simp add: u emit_def localStorage_removeToken effects_removeToken)
qed

theorem useEffect_clears_other_configuration_witness:
  "localStorage exampleSession ''uniqueId'' \<noteq> Some ''B''
   \<and> localStorage (useEffect ''B'' 1600000050000 exampleSession) ''token'' = None
   \<and> localStorage (useEffect ''B'' 1600000050000 exampleSession) ''expire'' = None
   \<and> localStorage (useEffect ''B'' 1600000050000 exampleSession) ''uniqueId'' = None
   \<and> effects (useEffect ''B'' 1600000050000 exampleSession) =
        effects exampleSession @
          [RemoveItem ''token'', RemoveItem ''expire'', RemoveItem ''uniqueId'',
           Emit (GetToken ''B'')]"
proof -
  have h: "localStorage exampleSession ''uniqueId'' \<noteq> Some ''B''"
    by (simp add: exampleSession_record)
  from h useEffect_clears_other_configuration [OF h, of 1600000050000] show ?thesis
    by simp
qed

text \<open>
  C6. When the channel first becomes available, the mount effect sends exactly one message:
  \<^verbatim>\<open>GetToken\<close> carrying the configuration identifier when \<open>getToken\<close> is absent, and
  \<^verbatim>\<open>ClientReady\<close> carrying the token when \<open>getToken\<close> returns one. \<open>getToken\<close> reads the
  store as the identifier check has left it, which is the store as found whenever the
  stored identifier is the one being loaded.
\<close>

theorem useEffect_negotiation:
  "emitted (effects (useEffect uniqueId dateNow s)) =
     emitted (effects s) @
       [case getToken dateNow (localStorage (checkUniqueId uniqueId s)) of
          None \<Rightarrow> GetToken uniqueId
        | Some token \<Rightarrow> ClientReady token]
   \<and> (localStorage s ''uniqueId'' = Some uniqueId \<longrightarrow>
        emitted (effects (useEffect uniqueId dateNow s)) =
          emitted (effects s) @
            [case getToken dateNow (localStorage s) of
               None \<Rightarrow> GetToken uniqueId
             | Some token \<Rightarrow> ClientReady token])"
proof -
  have a: "emitted (effects (useEffect uniqueId dateNow s)) =
     emitted (effects (checkUniqueId uniqueId s)) @
       [case getToken dateNow (localStorage (checkUniqueId uniqueId s)) of
          None \<Rightarrow> GetToken uniqueId
        | Some token \<Rightarrow> ClientReady token]"
    by (simp add: useEffect_def Let_def emit_def emitted_append split: option.split)
  have b: "localStorage s ''uniqueId'' = Some uniqueId \<Longrightarrow> checkUniqueId uniqueId s = s"
    by (simp add: checkUniqueId_def)
  from a b show ?thesis by (auto simp: emitted_checkUniqueId)
qed

theorem useEffect_negotiation_witness:
  "localStorage exampleSession ''uniqueId'' = Some ''A''
   \<and> emitted (effects (useEffect ''A'' 1600000050000 exampleSession)) =
        emitted (effects exampleSession) @ [ClientReady ''T1'']
   \<and> emitted (effects (useEffect ''A'' 1600000100000 exampleSession)) =
        emitted (effects exampleSession) @ [GetToken ''A'']
   \<and> emitted (effects (useEffect ''B'' 1600000050000 exampleSession)) =
        emitted (effects exampleSession) @ [GetToken ''B'']"
proof -
  have h: "localStorage exampleSession ''uniqueId'' = Some ''A''"
    by (simp add: exampleSession_record)
  have c: "localStorage (checkUniqueId ''B'' exampleSession) =
      [''token'' \<mapsto> ''T1'', ''expire'' \<mapsto> NumberToString (Num 1600000100),
       ''uniqueId'' \<mapsto> ''A''](''token'' := None, ''expire'' := None, ''uniqueId'' := None)"
    by (simp add: checkUniqueId_def localStorage_removeToken exampleSession_record)
  have g: "getToken 1600000050000 (localStorage (checkUniqueId ''B'' exampleSession)) = None"
    unfolding c by (rule getToken_cleared) simp_all
  from h g
    useEffect_negotiation [of "''A''" 1600000050000 exampleSession, THEN conjunct2]
    useEffect_negotiation [of "''A''" 1600000100000 exampleSession, THEN conjunct2]
    useEffect_negotiation [of "''B''" 1600000050000 exampleSession, THEN conjunct1]
  show ?thesis
    by (simp add: getToken_exampleSession)
qed

text \<open>
  C5. On a \<^verbatim>\<open>reconnect\<close> event the token store is read again. With no valid token the
  handler raises the access-denied alert and does nothing else: no \<^verbatim>\<open>ClientReady\<close>, no
  retry. With a token it sends \<^verbatim>\<open>ClientReady\<close> carrying that token.
\<close>

theorem on_reconnect_effects:
  "effects (on_reconnect dateNow s) =
     effects s @ (case getToken dateNow (localStorage s) of
                    None \<Rightarrow> [Alert accessDenied]
                  | Some token \<Rightarrow> [Emit (ClientReady token)])"
  by (simp add: on_reconnect_def alert_def emit_def split: option.split)

theorem on_reconnect_effects_witness:
  "effects (on_reconnect 1600000050000 exampleSession) =
     effects exampleSession @ [Emit (ClientReady ''T1'')]
   \<and> effects (on_reconnect 1600000100000 exampleSession) =
     effects exampleSession @ [Alert accessDenied]
   \<and> effects (on_reconnect 1600000050000 (initialState Map.empty)) = [Alert accessDenied]"
  using on_reconnect_effects [of 1600000050000 exampleSession]
    on_reconnect_effects [of 1600000100000 exampleSession]
    on_reconnect_effects [of 1600000050000 "initialState Map.empty"]
  by (simp add: getToken_exampleSession getToken_cleared initialState_def)

section \<open>Relaying actions\<close>

text \<open>
  C2. \<open>handleAction\<close>, called from the rendered \<^verbatim>\<open>Bibbox\<close>: with no valid token it raises
  the access-denied alert and emits nothing. With a token it resets the idle timer and
  then emits one \<^verbatim>\<open>ClientEvent\<close>: \<^verbatim>\<open>Reset\<close> with the token only when the action is
  "reset", otherwise \<^verbatim>\<open>Action\<close> with the action name, the token and the data.
\<close>

theorem handleAction_effects:
  assumes "rendered s"
  shows "effects (handleAction action data dateNow s) =
     effects s @ (case getToken dateNow (localStorage s) of
                    None \<Rightarrow> [Alert accessDenied]
                  | Some token \<Rightarrow>
                      [IdleTimerReset,
                       Emit (ClientEvent (if action = ''reset'' then Reset token
                                          else Action action token data))])"
  using assms
  by (simp add: handleAction_def alert_def emit_def resetIdleTimer_def Let_def
      split: option.split)

theorem handleAction_effects_witness:
  "rendered exampleSession
   \<and> effects (handleAction ''reset'' None 1600000050000 exampleSession) =
       effects exampleSession @ [IdleTimerReset, Emit (ClientEvent (Reset ''T1''))]
   \<and> effects (handleAction ''enterFlowCheckOut'' (Some ''{}'') 1600000050000 exampleSession) =
       effects exampleSession @
         [IdleTimerReset, Emit (ClientEvent (Action ''enterFlowCheckOut'' ''T1'' (Some ''{}'')))]
   \<and> effects (handleAction ''enterFlowCheckOut'' (Some ''{}'') 1600000100000 exampleSession) =
       effects exampleSession @ [Alert accessDenied]"
proof -
  have h: "rendered exampleSession"
    by (simp add: rendered_def exampleSession_record)
  from h handleAction_effects [OF h, of "''reset''" None 1600000050000]
    handleAction_effects [OF h, of "''enterFlowCheckOut''" "Some ''{}''" 1600000050000]
    handleAction_effects [OF h, of "''enterFlowCheckOut''" "Some ''{}''" 1600000100000]
  show ?thesis
    by (simp add: getToken_exampleSession)
qed

section \<open>Properties of the idle monitor\<close>

text \<open>
  C3. \<open>handleIdle\<close>, called by the rendered \<^verbatim>\<open>IdleTimer\<close> at the idle deadline: with no
  valid token it raises the access-denied alert and emits nothing. With a token it emits
  a \<^verbatim>\<open>Reset\<close> event exactly when the step of the machine state is not "initial"; on the
  initial step it emits nothing and restarts the idle timer.
\<close>

theorem handleIdle_effects:
  assumes "machineState s = Some ms" and "boxConfig s \<noteq> None"
  shows "\<exists>s'. handleIdle dateNow s = Inr s' \<and>
     effects s' =
       effects s @ (case getToken dateNow (localStorage s) of
                      None \<Rightarrow> [Alert accessDenied]
                    | Some token \<Rightarrow>
                        if step ms \<noteq> ''initial'' then [Emit (ClientEvent (Reset token))]
                        else [IdleTimerReset])"
  using assms
  by (simp add: handleIdle_def alert_def emit_def resetIdleTimer_def rendered_def
      split: option.split)

theorem handleIdle_effects_witness:
  "machineState exampleSession = Some \<lparr>step = ''checkOutItems''\<rparr>
   \<and> boxConfig exampleSession \<noteq> None
   \<and> machineState exampleHome = Some \<lparr>step = ''initial''\<rparr>
   \<and> boxConfig exampleHome \<noteq> None
   \<and> (\<exists>s'. handleIdle 1600000050000 exampleSession = Inr s'
         \<and> effects s' = effects exampleSession @ [Emit (ClientEvent (Reset ''T1''))])
   \<and> (\<exists>s'. handleIdle 1600000050000 exampleHome = Inr s'
         \<and> effects s' = effects exampleHome @ [IdleTimerReset])
   \<and> (\<exists>s'. handleIdle 1600000100000 exampleSession = Inr s'
         \<and> effects s' = effects exampleSession @ [Alert accessDenied])"
proof -
  have h1: "machineState exampleSession = Some \<lparr>step = ''checkOutItems''\<rparr>"
    and h2: "boxConfig exampleSession \<noteq> None"
    by (simp_all add: exampleSession_record)
  have h3: "machineState exampleHome = Some \<lparr>step = ''initial''\<rparr>"
    and h4: "boxConfig exampleHome \<noteq> None"
    by (simp_all add: exampleHome_record exampleSession_record)
  from h1 h2 h3 h4 handleIdle_effects [OF h1 h2, of 1600000050000]
    handleIdle_effects [OF h3 h4, of 1600000050000]
    handleIdle_effects [OF h1 h2, of 1600000100000]
  show ?thesis
    by (simp add: getToken_exampleSession getToken_exampleHome)
qed

lemma idlePeriod_triggered: "phase m = IdleTriggered \<Longrightarrow> idlePeriod later m = m"
  by (induction later) (simp_all add: deadlineReached_def)

text \<open>A deadline emits no reset, or emits one and leaves the monitor Idle-triggered.\<close>

lemma deadlineReached_step:
  "resetsEmitted (deadlineReached dateNow m) = resetsEmitted m
   \<or> (resetsEmitted (deadlineReached dateNow m) = resetsEmitted m + 1
      \<and> phase (deadlineReached dateNow m) = IdleTriggered)"
  by (cases "phase m")
     (auto simp: deadlineReached_def handleIdle_def resetsEmitted_def alert_def emit_def
        resetIdleTimer_def performed_def emitted_append split: option.split)

lemma idlePeriod_bound: "resetsEmitted (idlePeriod deadlines m) \<le> resetsEmitted m + 1"
proof (induction deadlines arbitrary: m)
  case Nil
  show ?case by simp
next
  case (Cons dateNow later)
  from deadlineReached_step [of dateNow m] show ?case
  proof
    assume "resetsEmitted (deadlineReached dateNow m) = resetsEmitted m"
    with Cons.IH [of "deadlineReached dateNow m"] show ?thesis by simp
  next
    assume "resetsEmitted (deadlineReached dateNow m) = resetsEmitted m + 1
      \<and> phase (deadlineReached dateNow m) = IdleTriggered"
    then show ?thesis by (simp add: idlePeriod_triggered)
  qed
qed

lemma resetsEmitted_pulses: "resetsEmitted ((activityPulse ^^ pulses) m) = resetsEmitted m"
  by (induction pulses) (simp_all add: activityPulse_def resetsEmitted_def)

text \<open>
  C7. Over one idle period, that is any number of deadlines with no state update and no
  action in between, the idle monitor emits at most one \<^verbatim>\<open>Reset\<close> event, from whatever
  state the period starts and however many activity pulses came before the deadline.
\<close>

theorem idlePeriod_at_most_one_reset:
  "resetsEmitted (idlePeriod deadlines ((activityPulse ^^ pulses) m)) \<le> resetsEmitted m + 1"
  using idlePeriod_bound [of deadlines "(activityPulse ^^ pulses) m"]
  by (simp add: resetsEmitted_pulses)

theorem idlePeriod_at_most_one_reset_witness:
  "resetsEmitted (idlePeriod [1600000050000, 1600000060000, 1600000070000]
      ((activityPulse ^^ 3) \<lparr>phase = Active, app = exampleSession\<rparr>))
     \<le> resetsEmitted \<lparr>phase = Active, app = exampleSession\<rparr> + 1
   \<and> resetsEmitted \<lparr>phase = Active, app = exampleSession\<rparr> = 0
   \<and> resetsEmitted (idlePeriod [1600000050000, 1600000060000, 1600000070000]
      ((activityPulse ^^ 3) \<lparr>phase = Active, app = exampleSession\<rparr>)) = 1
   \<and> resetsEmitted (idlePeriod [1600000050000, 1600000060000, 1600000070000]
      ((activityPulse ^^ 3) \<lparr>phase = Active, app = exampleHome\<rparr>)) = 0"
proof -
  have p: "(activityPulse ^^ 3) m = m\<lparr>phase := Active\<rparr>" for m
    by (simp add: eval_nat_numeral activityPulse_def)
  have a: "resetsEmitted \<lparr>phase = Active, app = exampleSession\<rparr> = 0"
    by (simp add: resetsEmitted_def resets_exampleSession)
  have b: "resetsEmitted (idlePeriod [1600000050000, 1600000060000, 1600000070000]
      ((activityPulse ^^ 3) \<lparr>phase = Active, app = exampleSession\<rparr>)) = 1"
    by (simp add: p deadlineReached_def handleIdle_exampleSession performed_def emit_def
        resetsEmitted_def emitted_append resets_exampleSession)
  have c: "resetsEmitted (idlePeriod [1600000050000, 1600000060000, 1600000070000]
      ((activityPulse ^^ 3) \<lparr>phase = Active, app = exampleHome\<rparr>)) = 0"
    by (simp add: p deadlineReached_def handleIdle_def getToken_exampleHome
        getToken_printed_expiry resetIdleTimer_def rendered_def performed_def resetsEmitted_def
        emitted_append exampleHome_record exampleSession_record)
  from a b c
    idlePeriod_at_most_one_reset [of "[1600000050000, 1600000060000, 1600000070000]" 3
      "\<lparr>phase = Active, app = exampleSession\<rparr>"]
  show ?thesis by simp
qed

section \<open>Properties of the translations\<close>

text \<open>
  C8. After a \<^verbatim>\<open>Configuration\<close> message whose default language code is not supported,
  the English bundle is the one imported and installed as the messages, and nothing but
  the import happens (no alert). A supported code gets the bundle of its own name.
\<close>

theorem configured_bundle:
  "(defaultLanguageCode data \<notin> set supportedLanguageCodes \<longrightarrow>
      messages (configured data s) = Some (Module ''../../public/lang/en-comp.json'')
      \<and> effects (configured data s) = effects s @ [Import ''../../public/lang/en-comp.json''])
   \<and> (defaultLanguageCode data \<in> set supportedLanguageCodes \<longrightarrow>
      messages (configured data s) =
        Some (Module (''../../public/lang/'' @ defaultLanguageCode data @ ''-comp.json''))
      \<and> effects (configured data s) =
          effects s @
            [Import (''../../public/lang/'' @ defaultLanguageCode data @ ''-comp.json'')])"
  by (simp add: configured_def on_Configuration_def loadTranslations_path importResolved_def
      activateTranslations_def)

theorem configured_bundle_witness:
  "''fr'' \<notin> set supportedLanguageCodes \<and> ''da'' \<in> set supportedLanguageCodes
   \<and> messages (configured \<lparr>defaultLanguageCode = ''fr'', inactivityTimeOut = 3000\<rparr>
        (initialState Map.empty)) = Some (Module ''../../public/lang/en-comp.json'')
   \<and> effects (configured \<lparr>defaultLanguageCode = ''fr'', inactivityTimeOut = 3000\<rparr>
        (initialState Map.empty)) = [Import ''../../public/lang/en-comp.json'']
   \<and> messages (configured \<lparr>defaultLanguageCode = ''da'', inactivityTimeOut = 3000\<rparr>
        (initialState Map.empty)) = Some (Module ''../../public/lang/da-comp.json'')
   \<and> effects (configured \<lparr>defaultLanguageCode = ''da'', inactivityTimeOut = 3000\<rparr>
        (initialState Map.empty)) = [Import ''../../public/lang/da-comp.json'']"
  using configured_bundle [of "\<lparr>defaultLanguageCode = ''fr'', inactivityTimeOut = 3000\<rparr>"
      "initialState Map.empty"]
    configured_bundle [of "\<lparr>defaultLanguageCode = ''da'', inactivityTimeOut = 3000\<rparr>"
      "initialState Map.empty"]
  by (simp add: supportedLanguageCodes_def initialState_def)

text \<open>
  C10. After a \<^verbatim>\<open>Configuration\<close> message whose default language code is not supported,
  the language handed to \<^verbatim>\<open>IntlProvider\<close> as locale is that unsupported code itself, not
  "en", while the messages are the English bundle.
\<close>

theorem configured_locale_diverges:
  assumes "defaultLanguageCode data \<notin> set supportedLanguageCodes"
  shows "language (configured data s) = defaultLanguageCode data
       \<and> language (configured data s) \<noteq> ''en''
       \<and> messages (configured data s) = Some (Module ''../../public/lang/en-comp.json'')"
  using assms
  by (auto simp: configured_def on_Configuration_def loadTranslations_path importResolved_def
      activateTranslations_def supportedLanguageCodes_def)

theorem configured_locale_diverges_witness:
  "''fr'' \<notin> set supportedLanguageCodes
   \<and> language (configured \<lparr>defaultLanguageCode = ''fr'', inactivityTimeOut = 3000\<rparr>
        (initialState Map.empty)) = ''fr''
   \<and> messages (configured \<lparr>defaultLanguageCode = ''fr'', inactivityTimeOut = 3000\<rparr>
        (initialState Map.empty)) = Some (Module ''../../public/lang/en-comp.json'')"
proof -
  have h: "defaultLanguageCode \<lparr>defaultLanguageCode = ''fr'', inactivityTimeOut = 3000\<rparr>
      \<notin> set supportedLanguageCodes"
    by (simp add: supportedLanguageCodes_def)
  from h configured_locale_diverges [OF h, of "initialState Map.empty"] show ?thesis
    by simp
qed

end
